theory Spec2Isabelle
  imports Complex_Main
begin

section \<open>The event-driven backtest engine (source/backtest_engine.py)\<close>

text \<open>
  The class \<open>Backtest\<close> wires a data feed, an event engine, a brokerage, a portfolio
  manager, a performance manager, a risk manager and a strategy together, and registers four
  event handlers. The collaborating classes live in other modules; what this module does with
  them is to call their constructors and methods in a fixed order. The embedding therefore
  keeps the engine's own fields in a record and logs every call the engine makes on a
  collaborator, in program order, together with the value of \<open>self._current_time\<close>
  at the moment of the call.
\<close>

subsection \<open>Python values that the configuration carries\<close>

datatype pyval = PNone | PBool bool | PInt int | PStr string

fun nat_to_dec :: "nat \<Rightarrow> string" where
  "nat_to_dec n =
     (if n < 10 then [char_of (48 + n)]
      else nat_to_dec (n div 10) @ [char_of (48 + n mod 10)])"

declare nat_to_dec.simps [simp del]

definition int_to_dec :: "int \<Rightarrow> string" where
  "int_to_dec i = (if i < 0 then CHR ''-'' # nat_to_dec (nat (- i)) else nat_to_dec (nat i))"

text \<open>Python's \<open>str(x)\<close> on the scalars above.\<close>

fun py_str :: "pyval \<Rightarrow> string" where
  "py_str PNone = ''None''"
| "py_str (PBool b) = (if b then ''True'' else ''False'')"
| "py_str (PInt i) = int_to_dec i"
| "py_str (PStr s) = s"

text \<open>
  \<open>str.upper()\<close> on a string of ASCII characters: the letters a to z (codes 97 to 122) move
  down by 32, every other character is kept. Python 3 strings are sequences of Unicode code
  points and \<open>str.upper()\<close> follows the Unicode tables outside the ASCII range (U+017F, the
  long s, becomes S); characters of HOL strings are bytes, and the function below is
  \<open>str.upper()\<close> only where \<open>is_ascii\<close> holds of every character. Statements about
  \<open>upper\<close> are made for such strings.
\<close>

definition is_ascii :: "char \<Rightarrow> bool" where
  "is_ascii c \<longleftrightarrow> (of_char c :: nat) < 128"

definition upper_char :: "char \<Rightarrow> char" where
  "upper_char c =
     (let n = (of_char c :: nat) in if 97 \<le> n \<and> n \<le> 122 then char_of (n - 32) else c)"

definition upper :: "string \<Rightarrow> string" where
  "upper s = map upper_char s"

subsection \<open>List objects and aliasing\<close>

text \<open>
  Python lists are objects: \<open>self._symbols = config['tickers']\<close> aliases the caller's
  list, \<open>self._symbols[:]\<close> allocates a copy, \<open>append\<close> mutates in place and a list
  comprehension allocates a new list. The heap maps an address to the contents of the list
  stored there; a new list gets the next address.
\<close>

type_synonym addr = nat
type_synonym heap = "pyval list list"

definition heap_get :: "heap \<Rightarrow> addr \<Rightarrow> pyval list option" where
  "heap_get h a = (if a < length h then Some (h ! a) else None)"

definition heap_list :: "heap \<Rightarrow> addr \<Rightarrow> pyval list" where
  "heap_list h a = (case heap_get h a of Some xs \<Rightarrow> xs | None \<Rightarrow> [])"

definition heap_alloc :: "heap \<Rightarrow> pyval list \<Rightarrow> heap \<times> addr" where
  "heap_alloc h xs = (h @ [xs], length h)"

definition heap_append :: "heap \<Rightarrow> addr \<Rightarrow> pyval \<Rightarrow> heap" where
  "heap_append h a v = h[a := heap_list h a @ [v]]"

subsection \<open>Events\<close>

text \<open>
  A pandas Timestamp is a count of nanoseconds since 1970-01-01; 1900-01-01 lies
  25567 days before that.
\<close>

type_synonym timestamp = int
type_synonym price = real

definition Timestamp_1900_01_01 :: timestamp where
  "Timestamp_1900_01_01 = - (25567 * 86400 * 1000000000)"

datatype event_type = TICK | BAR | ORDER | FILL

datatype side = Buy | Sell
datatype order_type = Market | Limit

record tick_event =
  tick_full_symbol :: string
  tick_timestamp :: timestamp
  tick_price :: price

record bar_event =
  bar_full_symbol :: string
  bar_start_time :: timestamp
  bar_end :: timestamp
  open_price :: price
  high_price :: price
  low_price :: price
  close_price :: price
  adj_close_price :: price

record order_event =
  order_full_symbol :: string
  order_timestamp :: timestamp
  order_side :: side
  order_quantity :: int
  order_kind :: order_type
  limit_price :: "price option"

record fill_event =
  fill_full_symbol :: string
  fill_timestamp :: timestamp
  fill_side :: side
  fill_quantity :: int
  fill_price :: price
  commission :: price

text \<open>
  Modelled from the spec: the method \<open>BarEvent.bar_end_time()\<close> is defined in
  source/event/event.py, which is not among the sources; the spec's data model gives a Bar
  the fields start and end, and the method is taken to return the end.
\<close>

definition bar_end_time :: "bar_event \<Rightarrow> timestamp" where
  "bar_end_time b = bar_end b"

datatype event =
    Tick tick_event
  | Bar bar_event
  | Order order_event
  | Fill fill_event

fun event_type_of :: "event \<Rightarrow> event_type" where
  "event_type_of (Tick _) = TICK"
| "event_type_of (Bar _) = BAR"
| "event_type_of (Order _) = ORDER"
| "event_type_of (Fill _) = FILL"

subsection \<open>The engine's state and the calls it makes\<close>

datatype error = TypeError | AttributeError

datatype strategy_class = StrategyClass string

datatype data_feed =
    BacktestDataFeedLocal pyval pyval pyval
  | BacktestDataFeedTushare pyval pyval
  | BacktestDataFeedQuandl pyval pyval

text \<open>The four bound methods that \<open>__init__\<close> hands to \<open>register_handler\<close>.\<close>

datatype handler = TickEventHandler | BarEventHandler | OrderEventHandler | FillEventHandler

text \<open>
  One constructor per method of a collaborator. \<open>RiskCheck\<close> is the risk manager's
  check of an order; it is part of the risk manager's interface although no statement of
  this module calls it.
\<close>

datatype call =
    NewDataFeed data_feed
  | SubscribeMarketData "pyval list"
  | NewBacktestEventEngine
  | NewDataBoard
  | NewBacktestBrokerage
  | NewPortfolioManager pyval
  | NewPerformanceManager "pyval list"
  | NewPassThroughRiskManager
  | PrintCanNotFindStrategy pyval
  | NewStrategy strategy_class
  | StrategyOnInit
  | StrategyOnStart
  | RegisterHandler event_type handler
  | UpdatePerformance timestamp
  | MarkToMarket timestamp string price
  | DataBoardOnTick tick_event
  | DataBoardOnBar bar_event
  | StrategyOnTick tick_event
  | StrategyOnBar bar_event
  | RiskCheck order_event
  | PlaceOrder order_event
  | PortfolioOnFill fill_event
  | PerformanceOnFill fill_event
  | EventsEngineRun
  | UpdateFinalPerformance timestamp
  | SaveResults pyval
  | CreateTearsheet

record config =
  cfg_cash :: pyval
  cfg_tickers :: addr
  cfg_benchmark :: pyval
  cfg_start_date :: pyval
  cfg_end_date :: pyval
  cfg_strategy :: pyval
  cfg_datasource :: pyval
  cfg_hist_dir :: pyval
  cfg_output_dir :: pyval

text \<open>
  A field that \<open>__init__\<close> may leave unset (it returns early when the strategy is not
  found) is an option. \<open>handlers\<close> is the event engine's table of registered handlers.
\<close>

record backtest =
  current_time :: timestamp
  initial_cash :: pyval
  symbols :: addr
  benchmark :: pyval
  hist_dir :: pyval
  output_dir :: pyval
  data_feed :: "data_feed option"
  strategy :: "strategy_class option"
  handlers :: "event_type \<rightharpoonup> handler"
  trace :: "(timestamp \<times> call) list"

definition emit :: "call \<Rightarrow> backtest \<Rightarrow> backtest" where
  "emit c self = self\<lparr>trace := trace self @ [(current_time self, c)]\<rparr>"

definition calls :: "backtest \<Rightarrow> call list" where
  "calls self = map snd (trace self)"

text \<open>
  Modelled from the spec: \<open>BacktestEventEngine.register_handler\<close> is defined in
  source/event/backtest_event_engine.py, which is not among the sources; by the spec one
  kind has one handler and registering again replaces it.
\<close>

definition register_handler :: "event_type \<Rightarrow> handler \<Rightarrow> backtest \<Rightarrow> backtest" where
  "register_handler k f self = emit (RegisterHandler k f) (self\<lparr>handlers := (handlers self)(k \<mapsto> f)\<rparr>)"

subsection \<open>Construction\<close>

definition select_data_feed :: "string \<Rightarrow> pyval \<Rightarrow> pyval \<Rightarrow> pyval \<Rightarrow> data_feed" where
  "select_data_feed datasource hist start_date send_date =
     (if upper datasource = ''LOCAL'' then BacktestDataFeedLocal hist start_date send_date
      else if upper datasource = ''TUSHARE'' then BacktestDataFeedTushare start_date send_date
      else BacktestDataFeedQuandl start_date send_date)"

text \<open>
  Steps 7 and 9 of \<open>__init__\<close>: the strategy is looked up in the registry; a miss prints a
  message and returns from the constructor, leaving the strategy unset and no handler
  registered.
\<close>

definition load_strategy :: "(pyval \<rightharpoonup> strategy_class) \<Rightarrow> pyval \<Rightarrow> backtest \<Rightarrow> backtest" where
  "load_strategy strategy_list strategy_name self =
     (case strategy_list strategy_name of
        None \<Rightarrow> emit (PrintCanNotFindStrategy strategy_name) self
      | Some strategyClass \<Rightarrow>
          (let self = emit (NewStrategy strategyClass) (self\<lparr>strategy := Some strategyClass\<rparr>);
               self = emit StrategyOnInit self;
               self = emit StrategyOnStart self;
               self = register_handler TICK TickEventHandler self;
               self = register_handler BAR BarEventHandler self;
               self = register_handler ORDER OrderEventHandler self;
               self = register_handler FILL FillEventHandler self
           in self))"

text \<open>
  \<open>Backtest.__init__\<close>. A \<open>tickers\<close> entry that is not a list cannot be sliced; that is
  the \<open>TypeError\<close>. Every other path returns the constructed object, together with the
  heap as the constructor leaves it.
\<close>

definition Backtest_init ::
  "heap \<Rightarrow> config \<Rightarrow> (pyval \<rightharpoonup> strategy_class) \<Rightarrow> error + (heap \<times> backtest)" where
  "Backtest_init h config strategy_list =
     (let self = \<lparr> current_time = Timestamp_1900_01_01,
                   initial_cash = cfg_cash config,
                   symbols = cfg_tickers config,
                   benchmark = cfg_benchmark config,
                   hist_dir = cfg_hist_dir config,
                   output_dir = cfg_output_dir config,
                   data_feed = None,
                   strategy = None,
                   handlers = Map.empty,
                   trace = [] \<rparr>;
          start_date = cfg_start_date config;
          send_date = cfg_end_date config;
          strategy_name = cfg_strategy config;
          datasource = py_str (cfg_datasource config)
      in case heap_get h (symbols self) of
           None \<Rightarrow> Inl TypeError
         | Some tickers \<Rightarrow>
            (let (h, symbols_all) = heap_alloc h tickers;
                 h = (if benchmark self \<noteq> PNone
                      then heap_append h symbols_all (benchmark self) else h);
                 (h, strs) = heap_alloc h (map (\<lambda>s. PStr (py_str s)) (heap_list h (symbols self)));
                 self = self\<lparr>symbols := strs\<rparr>;
                 (h, symbols_all) =
                    heap_alloc h (map (\<lambda>s. PStr (py_str s)) (heap_list h symbols_all));
                 feed = select_data_feed datasource (hist_dir self) start_date send_date;
                 self = emit (NewDataFeed feed) (self\<lparr>data_feed := Some feed\<rparr>);
                 self = emit (SubscribeMarketData (heap_list h symbols_all)) self;
                 self = emit NewBacktestEventEngine self;
                 self = emit NewDataBoard self;
                 self = emit NewBacktestBrokerage self;
                 self = emit (NewPortfolioManager (initial_cash self)) self;
                 self = emit (NewPerformanceManager (heap_list h symbols_all)) self;
                 self = emit NewPassThroughRiskManager self
             in Inr (h, load_strategy strategy_list strategy_name self)))"

subsection \<open>The event handlers\<close>

text \<open>
  \<open>self._strategy\<close> exists only when the constructor found the strategy; reading it
  otherwise raises \<open>AttributeError\<close>, after the three calls that precede it.
\<close>

definition tick_event_handler :: "tick_event \<Rightarrow> backtest \<Rightarrow> error + backtest" where
  "tick_event_handler tick_event self =
     (let self = self\<lparr>current_time := tick_timestamp tick_event\<rparr>;
          self = emit (UpdatePerformance (current_time self)) self;
          self = emit (MarkToMarket (current_time self) (tick_full_symbol tick_event)
                         (tick_price tick_event)) self;
          self = emit (DataBoardOnTick tick_event) self
      in case strategy self of
           None \<Rightarrow> Inl AttributeError
         | Some _ \<Rightarrow> Inr (emit (StrategyOnTick tick_event) self))"

definition bar_event_handler :: "bar_event \<Rightarrow> backtest \<Rightarrow> error + backtest" where
  "bar_event_handler bar_event self =
     (let self = self\<lparr>current_time := bar_end_time bar_event\<rparr>;
          self = emit (UpdatePerformance (current_time self)) self;
          self = emit (MarkToMarket (current_time self) (bar_full_symbol bar_event)
                         (adj_close_price bar_event)) self;
          self = emit (DataBoardOnBar bar_event) self
      in case strategy self of
           None \<Rightarrow> Inl AttributeError
         | Some _ \<Rightarrow> Inr (emit (StrategyOnBar bar_event) self))"

definition order_event_handler :: "order_event \<Rightarrow> backtest \<Rightarrow> error + backtest" where
  "order_event_handler order_event self = Inr (emit (PlaceOrder order_event) self)"

definition fill_event_handler :: "fill_event \<Rightarrow> backtest \<Rightarrow> error + backtest" where
  "fill_event_handler fill_event self =
     (let self = emit (PortfolioOnFill fill_event) self;
          self = emit (PerformanceOnFill fill_event) self
      in Inr self)"

subsection \<open>The dispatcher and the run\<close>

text \<open>
  A registered handler applied to an event. The constructor registers each handler for its
  own kind; a handler given an event of another kind would read attributes the event lacks.
\<close>

fun invoke :: "handler \<Rightarrow> event \<Rightarrow> backtest \<Rightarrow> error + backtest" where
  "invoke TickEventHandler (Tick e) self = tick_event_handler e self"
| "invoke BarEventHandler (Bar e) self = bar_event_handler e self"
| "invoke OrderEventHandler (Order e) self = order_event_handler e self"
| "invoke FillEventHandler (Fill e) self = fill_event_handler e self"
| "invoke _ _ self = Inl AttributeError"

text \<open>
  Modelled from the spec: \<open>BacktestEventEngine.run\<close> is defined in
  source/event/backtest_event_engine.py, which is not among the sources. By the spec it
  hands every event, in order, to the handler registered for the event's kind, settles the
  derived events before the next market event, ends when the feed is exhausted, and a
  handler that raises aborts the run. The argument is the sequence of events in the order
  the dispatcher hands them out (market events with the orders and fills they give rise
  to). What the event engine does with an event whose kind has no registered handler is said
  neither by the spec nor by this module; it is the parameter \<open>unhandled\<close>, and every
  statement below holds for each value of it.
\<close>

definition dispatch ::
  "(event \<Rightarrow> backtest \<Rightarrow> error + backtest) \<Rightarrow> event \<Rightarrow> backtest \<Rightarrow> error + backtest" where
  "dispatch unhandled e self =
     (case handlers self (event_type_of e) of
        None \<Rightarrow> unhandled e self
      | Some f \<Rightarrow> invoke f e self)"

fun events_engine_run ::
  "(event \<Rightarrow> backtest \<Rightarrow> error + backtest) \<Rightarrow> event list \<Rightarrow> backtest \<Rightarrow> error + backtest" where
  "events_engine_run unhandled [] self = Inr self"
| "events_engine_run unhandled (e # es) self =
     (case dispatch unhandled e self of
        Inl err \<Rightarrow> Inl err
      | Inr self' \<Rightarrow> events_engine_run unhandled es self')"

text \<open>\<open>Backtest.run\<close>.\<close>

definition run ::
  "(event \<Rightarrow> backtest \<Rightarrow> error + backtest) \<Rightarrow> event list \<Rightarrow> backtest \<Rightarrow> error + backtest" where
  "run unhandled events self =
     (case events_engine_run unhandled events (emit EventsEngineRun self) of
        Inl err \<Rightarrow> Inl err
      | Inr self \<Rightarrow>
          (let self = emit (UpdateFinalPerformance (current_time self)) self;
               self = emit (SaveResults (output_dir self)) self;
               self = emit CreateTearsheet self
           in Inr self))"

text \<open>
  The module's entry point: \<open>backtest = Backtest(config)\<close> followed by
  \<open>backtest.run()\<close>. An exception of the constructor ends the program before the run.
\<close>

definition backtest_main ::
  "(event \<Rightarrow> backtest \<Rightarrow> error + backtest) \<Rightarrow> heap \<Rightarrow> config \<Rightarrow>
     (pyval \<rightharpoonup> strategy_class) \<Rightarrow> event list \<Rightarrow> error + backtest" where
  "backtest_main unhandled h config strategy_list events =
     (case Backtest_init h config strategy_list of
        Inl err \<Rightarrow> Inl err
      | Inr (h', backtest) \<Rightarrow> run unhandled events backtest)"

definition calls_of :: "error + backtest \<Rightarrow> call list" where
  "calls_of r = (case r of Inl _ \<Rightarrow> [] | Inr self \<Rightarrow> calls self)"

section \<open>What a run is expected to look like\<close>

text \<open>
  The definitions of this section do not come from the code. They say, event by event, which
  calls the description of the engine expects, and the theorems below compare the log of the
  embedded program with them.
\<close>

subsection \<open>Calls per event and the engine clock\<close>

fun handler_calls :: "event \<Rightarrow> call list" where
  "handler_calls (Tick e) =
     [UpdatePerformance (tick_timestamp e),
      MarkToMarket (tick_timestamp e) (tick_full_symbol e) (tick_price e),
      DataBoardOnTick e, StrategyOnTick e]"
| "handler_calls (Bar e) =
     [UpdatePerformance (bar_end_time e),
      MarkToMarket (bar_end_time e) (bar_full_symbol e) (adj_close_price e),
      DataBoardOnBar e, StrategyOnBar e]"
| "handler_calls (Order e) = [PlaceOrder e]"
| "handler_calls (Fill e) = [PortfolioOnFill e, PerformanceOnFill e]"

text \<open>Only a Tick or a Bar carries a time that the engine adopts as its current time.\<close>

fun market_time :: "event \<Rightarrow> timestamp option" where
  "market_time (Tick e) = Some (tick_timestamp e)"
| "market_time (Bar e) = Some (bar_end_time e)"
| "market_time (Order e) = None"
| "market_time (Fill e) = None"

definition clock_step :: "timestamp \<Rightarrow> event \<Rightarrow> timestamp" where
  "clock_step t e = (case market_time e of Some u \<Rightarrow> u | None \<Rightarrow> t)"

fun stamped :: "timestamp \<Rightarrow> event list \<Rightarrow> (timestamp \<times> call) list" where
  "stamped t [] = []"
| "stamped t (e # es) = map (Pair (clock_step t e)) (handler_calls e) @ stamped (clock_step t e) es"

text \<open>
  The time of the last Tick or Bar of a sequence, or the given default when the sequence has
  none.
\<close>

definition last_market_time :: "timestamp \<Rightarrow> event list \<Rightarrow> timestamp" where
  "last_market_time t0 events =
     (case rev (List.map_filter market_time events) of [] \<Rightarrow> t0 | t # _ \<Rightarrow> t)"



text \<open>
  An engine whose constructor ran to the end: the strategy is set and each of the four kinds
  has its handler.
\<close>

definition wired :: "backtest \<Rightarrow> bool" where
  "wired self \<longleftrightarrow>
     strategy self \<noteq> None \<and>
     handlers self TICK = Some TickEventHandler \<and>
     handlers self BAR = Some BarEventHandler \<and>
     handlers self ORDER = Some OrderEventHandler \<and>
     handlers self FILL = Some FillEventHandler"

subsection \<open>Classes of calls\<close>

fun is_construction_call :: "call \<Rightarrow> bool" where
  "is_construction_call (NewDataFeed _) = True"
| "is_construction_call (SubscribeMarketData _) = True"
| "is_construction_call NewBacktestEventEngine = True"
| "is_construction_call NewDataBoard = True"
| "is_construction_call NewBacktestBrokerage = True"
| "is_construction_call (NewPortfolioManager _) = True"
| "is_construction_call (NewPerformanceManager _) = True"
| "is_construction_call NewPassThroughRiskManager = True"
| "is_construction_call (PrintCanNotFindStrategy _) = True"
| "is_construction_call (NewStrategy _) = True"
| "is_construction_call StrategyOnInit = True"
| "is_construction_call StrategyOnStart = True"
| "is_construction_call (RegisterHandler _ _) = True"
| "is_construction_call _ = False"

fun is_valuation_call :: "call \<Rightarrow> bool" where
  "is_valuation_call (UpdatePerformance _) = True"
| "is_valuation_call (MarkToMarket _ _ _) = True"
| "is_valuation_call _ = False"

fun is_mark :: "call \<Rightarrow> bool" where
  "is_mark (MarkToMarket _ _ _) = True"
| "is_mark _ = False"

fun is_board_update :: "call \<Rightarrow> bool" where
  "is_board_update (DataBoardOnTick _) = True"
| "is_board_update (DataBoardOnBar _) = True"
| "is_board_update _ = False"

fun is_market_call :: "call \<Rightarrow> bool" where
  "is_market_call (UpdatePerformance _) = True"
| "is_market_call (MarkToMarket _ _ _) = True"
| "is_market_call (DataBoardOnTick _) = True"
| "is_market_call (DataBoardOnBar _) = True"
| "is_market_call (StrategyOnTick _) = True"
| "is_market_call (StrategyOnBar _) = True"
| "is_market_call _ = False"

fun is_on_fill :: "call \<Rightarrow> bool" where
  "is_on_fill (PortfolioOnFill _) = True"
| "is_on_fill (PerformanceOnFill _) = True"
| "is_on_fill _ = False"

fun is_order_path_call :: "call \<Rightarrow> bool" where
  "is_order_path_call (RiskCheck _) = True"
| "is_order_path_call (PlaceOrder _) = True"
| "is_order_path_call _ = False"

fun is_final_snapshot :: "call \<Rightarrow> bool" where
  "is_final_snapshot (UpdateFinalPerformance _) = True"
| "is_final_snapshot _ = False"

subsection \<open>The calls expected for one event, by class\<close>

fun snapshot_of :: "event \<Rightarrow> call list" where
  "snapshot_of (Tick e) = [UpdatePerformance (tick_timestamp e)]"
| "snapshot_of (Bar e) = [UpdatePerformance (bar_end_time e)]"
| "snapshot_of (Order e) = []"
| "snapshot_of (Fill e) = []"

fun mark_of :: "event \<Rightarrow> call list" where
  "mark_of (Tick e) = [MarkToMarket (tick_timestamp e) (tick_full_symbol e) (tick_price e)]"
| "mark_of (Bar e) = [MarkToMarket (bar_end_time e) (bar_full_symbol e) (adj_close_price e)]"
| "mark_of (Order e) = []"
| "mark_of (Fill e) = []"

fun board_update_of :: "event \<Rightarrow> call list" where
  "board_update_of (Tick e) = [DataBoardOnTick e]"
| "board_update_of (Bar e) = [DataBoardOnBar e]"
| "board_update_of (Order e) = []"
| "board_update_of (Fill e) = []"

fun strategy_callback_of :: "event \<Rightarrow> call list" where
  "strategy_callback_of (Tick e) = [StrategyOnTick e]"
| "strategy_callback_of (Bar e) = [StrategyOnBar e]"
| "strategy_callback_of (Order e) = []"
| "strategy_callback_of (Fill e) = []"

fun stamped_market_calls :: "event \<Rightarrow> (timestamp \<times> call) list" where
  "stamped_market_calls (Tick e) =
     map (Pair (tick_timestamp e))
       [UpdatePerformance (tick_timestamp e),
        MarkToMarket (tick_timestamp e) (tick_full_symbol e) (tick_price e),
        DataBoardOnTick e, StrategyOnTick e]"
| "stamped_market_calls (Bar e) =
     map (Pair (bar_end_time e))
       [UpdatePerformance (bar_end_time e),
        MarkToMarket (bar_end_time e) (bar_full_symbol e) (adj_close_price e),
        DataBoardOnBar e, StrategyOnBar e]"
| "stamped_market_calls (Order e) = []"
| "stamped_market_calls (Fill e) = []"

fun on_fill_calls :: "event \<Rightarrow> call list" where
  "on_fill_calls (Fill e) = [PortfolioOnFill e, PerformanceOnFill e]"
| "on_fill_calls _ = []"

fun place_order_of :: "event \<Rightarrow> call list" where
  "place_order_of (Order e) = [PlaceOrder e]"
| "place_order_of _ = []"

subsection \<open>Comparing strings without regard to case\<close>

definition lower_char :: "char \<Rightarrow> char" where
  "lower_char c =
     (let n = (of_char c :: nat) in if 65 \<le> n \<and> n \<le> 90 then char_of (n + 32) else c)"

definition ci_equal :: "string \<Rightarrow> string \<Rightarrow> bool" where
  "ci_equal s t \<longleftrightarrow> map lower_char s = map lower_char t"

subsection \<open>A small configuration and a few events\<close>

definition example_heap :: heap where
  "example_heap = [[PStr ''AAPL'', PStr ''MSFT'']]"

definition example_config :: config where
  "example_config =
     \<lparr> cfg_cash = PInt 100000, cfg_tickers = 0, cfg_benchmark = PStr ''SPY'',
       cfg_start_date = PStr ''2017-01-01'', cfg_end_date = PStr ''2017-12-31'',
       cfg_strategy = PStr ''BuyAndHold'', cfg_datasource = PStr ''quandl'',
       cfg_hist_dir = PStr ''hist'', cfg_output_dir = PStr ''out'' \<rparr>"

definition example_registry :: "pyval \<rightharpoonup> strategy_class" where
  "example_registry = [PStr ''BuyAndHold'' \<mapsto> StrategyClass ''BuyAndHold'']"

definition unknown_strategy_config :: config where
  "unknown_strategy_config = example_config\<lparr>cfg_strategy := PStr ''NoSuchStrategy''\<rparr>"

definition yahoo_config :: config where
  "yahoo_config = example_config\<lparr>cfg_datasource := PStr ''Yahoo''\<rparr>"

definition example_tick :: tick_event where
  "example_tick = \<lparr> tick_full_symbol = ''AAPL'', tick_timestamp = 100, tick_price = 10 \<rparr>"

definition example_bar :: bar_event where
  "example_bar =
     \<lparr> bar_full_symbol = ''AAPL'', bar_start_time = 140, bar_end = 200, open_price = 10,
       high_price = 13, low_price = 9, close_price = 12, adj_close_price = 11 \<rparr>"

definition example_order :: order_event where
  "example_order =
     \<lparr> order_full_symbol = ''AAPL'', order_timestamp = 100, order_side = Buy,
       order_quantity = 100, order_kind = Market, limit_price = None \<rparr>"

definition example_fill :: fill_event where
  "example_fill =
     \<lparr> fill_full_symbol = ''AAPL'', fill_timestamp = 100, fill_side = Buy,
       fill_quantity = 100, fill_price = 10, commission = 0 \<rparr>"

definition example_events :: "event list" where
  "example_events = [Tick example_tick, Order example_order, Fill example_fill, Bar example_bar]"


definition example_unhandled :: "event \<Rightarrow> backtest \<Rightarrow> error + backtest" where
  "example_unhandled e self = Inr self"

section \<open>The run of a constructed engine\<close>

subsection \<open>One event, then a sequence of events\<close>

lemma dispatch_wired:
  assumes "wired self"
  shows "\<exists>self'. dispatch unhandled e self = Inr self' \<and> wired self'
           \<and> current_time self' = clock_step (current_time self) e
           \<and> trace self' = trace self @ map (Pair (clock_step (current_time self) e)) (handler_calls e)
           \<and> output_dir self' = output_dir self"
proof (cases e)
  case (Tick x)
  with assms show ?thesis
    by (auto simp: dispatch_def wired_def tick_event_handler_def emit_def clock_step_def Let_def)
next
  case (Bar x)
  with assms show ?thesis
    by (auto simp: dispatch_def wired_def bar_event_handler_def emit_def clock_step_def Let_def)
next
  case (Order x)
  with assms show ?thesis
    by (auto simp: dispatch_def wired_def order_event_handler_def emit_def clock_step_def)
next
  case (Fill x)
  with assms show ?thesis
    by (auto simp: dispatch_def wired_def fill_event_handler_def emit_def clock_step_def Let_def)
qed

lemma fold_clock_step:
  "fold (\<lambda>e t. clock_step t e) events t0 = last_market_time t0 events"
proof (induction events arbitrary: t0 rule: rev_induct)
  case Nil
  then show ?case by (simp add: last_market_time_def List.map_filter_simps)
next
  case (snoc e es)
  show ?case
  proof (cases "market_time e")
    case None
    then show ?thesis using snoc
      by (simp add: last_market_time_def List.map_filter_def clock_step_def)
  next
    case (Some u)
    then show ?thesis
      by (simp add: last_market_time_def List.map_filter_def clock_step_def)
  qed
qed

lemma engine_run_wired:
  assumes "wired self"
  shows "\<exists>self'. events_engine_run unhandled events self = Inr self' \<and> wired self'
           \<and> current_time self' = fold (\<lambda>e t. clock_step t e) events (current_time self)
           \<and> trace self' = trace self @ stamped (current_time self) events
           \<and> output_dir self' = output_dir self"
  using assms
proof (induction events arbitrary: self)
  case Nil
  then show ?case by simp
next
  case (Cons e es)
  from dispatch_wired [OF Cons.prems, where e = e and unhandled = unhandled] obtain s1 where
    d: "dispatch unhandled e self = Inr s1" and w: "wired s1"
    and c: "current_time s1 = clock_step (current_time self) e"
    and t: "trace s1 = trace self @ map (Pair (clock_step (current_time self) e)) (handler_calls e)"
    and od: "output_dir s1 = output_dir self"
    by blast
  from Cons.IH [OF w] obtain s2 where
    r: "events_engine_run unhandled es s1 = Inr s2" and w2: "wired s2"
    and c2: "current_time s2 = fold (\<lambda>e t. clock_step t e) es (current_time s1)"
    and t2: "trace s2 = trace s1 @ stamped (current_time s1) es"
    and od2: "output_dir s2 = output_dir s1"
    by blast
  show ?case
    using d r w2 c c2 t t2 od od2 by simp
qed



lemma map_snd_stamped: "map snd (stamped t events) = concat (map handler_calls events)"
  by (induction events arbitrary: t) (simp_all add: comp_def)

lemma run_wired:
  assumes "wired self"
  shows "\<exists>self'. run unhandled events self = Inr self'
     \<and> trace self' = trace self @ (current_time self, EventsEngineRun) # stamped (current_time self) events
          @ map (Pair (last_market_time (current_time self) events))
              [UpdateFinalPerformance (last_market_time (current_time self) events),
               SaveResults (output_dir self), CreateTearsheet]"
proof -
  have w: "wired (emit EventsEngineRun self)"
    using assms by (simp add: wired_def emit_def)
  from engine_run_wired [OF w, where events = events and unhandled = unhandled] obtain s1 where
    r: "events_engine_run unhandled events (emit EventsEngineRun self) = Inr s1"
    and c: "current_time s1 = fold (\<lambda>e t. clock_step t e) events (current_time (emit EventsEngineRun self))"
    and t: "trace s1 = trace (emit EventsEngineRun self) @ stamped (current_time (emit EventsEngineRun self)) events"
    and od: "output_dir s1 = output_dir (emit EventsEngineRun self)"
    by blast
  show ?thesis
    using r c t od by (simp add: run_def Let_def emit_def fold_clock_step)
qed

subsection \<open>What the constructor leaves behind\<close>

lemma init_known:
  assumes "heap_get h (cfg_tickers config) = Some tickers"
    and "strategy_list (cfg_strategy config) = Some k"
  shows "\<exists>h' self. Backtest_init h config strategy_list = Inr (h', self) \<and> wired self
     \<and> current_time self = Timestamp_1900_01_01 \<and> output_dir self = cfg_output_dir config
     \<and> list_all is_construction_call (calls self)
     \<and> trace self = map (Pair Timestamp_1900_01_01) (calls self)"
  using assms
  by (simp add: Backtest_init_def Let_def heap_alloc_def load_strategy_def register_handler_def
      emit_def calls_def wired_def split: prod.splits)

lemma init_unknown:
  assumes "heap_get h (cfg_tickers config) = Some tickers"
    and "strategy_list (cfg_strategy config) = None"
  shows "\<exists>h' self. Backtest_init h config strategy_list = Inr (h', self)
     \<and> strategy self = None \<and> handlers self = Map.empty
     \<and> current_time self = Timestamp_1900_01_01 \<and> output_dir self = cfg_output_dir config
     \<and> list_all is_construction_call (calls self)
     \<and> last (calls self) = PrintCanNotFindStrategy (cfg_strategy config)
     \<and> trace self = map (Pair Timestamp_1900_01_01) (calls self)"
  using assms
  by (simp add: Backtest_init_def Let_def heap_alloc_def load_strategy_def register_handler_def
      emit_def calls_def wired_def split: prod.splits)

lemma init_lists:
  assumes "heap_get h (cfg_tickers config) = Some tickers"
  shows "\<exists>h' self. Backtest_init h config strategy_list = Inr (h', self)
     \<and> heap_get h' (cfg_tickers config) = Some tickers
     \<and> heap_get h' (symbols self) = Some (map (\<lambda>s. PStr (py_str s)) tickers)
     \<and> (\<forall>a < length h. heap_get h' a = heap_get h a)
     \<and> SubscribeMarketData (map (\<lambda>s. PStr (py_str s))
            (tickers @ (if cfg_benchmark config \<noteq> PNone then [cfg_benchmark config] else [])))
          \<in> set (calls self)
     \<and> NewPerformanceManager (map (\<lambda>s. PStr (py_str s))
            (tickers @ (if cfg_benchmark config \<noteq> PNone then [cfg_benchmark config] else [])))
          \<in> set (calls self)"
  using assms
  apply (cases "strategy_list (cfg_strategy config)")
  apply (auto simp add: Backtest_init_def Let_def heap_alloc_def load_strategy_def register_handler_def
      emit_def calls_def heap_get_def heap_list_def heap_append_def nth_append split: prod.splits if_splits)
  done

lemma init_feed:
  assumes "heap_get h (cfg_tickers config) = Some tickers"
  shows "\<exists>h' self. Backtest_init h config strategy_list = Inr (h', self)
     \<and> data_feed self = Some (select_data_feed (py_str (cfg_datasource config))
          (cfg_hist_dir config) (cfg_start_date config) (cfg_end_date config))
     \<and> NewDataFeed (select_data_feed (py_str (cfg_datasource config))
          (cfg_hist_dir config) (cfg_start_date config) (cfg_end_date config)) \<in> set (calls self)"
  using assms
  by (cases "strategy_list (cfg_strategy config)")
    (simp_all add: Backtest_init_def Let_def heap_alloc_def load_strategy_def register_handler_def
      emit_def calls_def split: prod.splits)

subsection \<open>Construction followed by the run\<close>

lemma main_known:
  assumes "heap_get h (cfg_tickers config) = Some tickers"
    and "strategy_list (cfg_strategy config) = Some k"
  shows "\<exists>self' pre. backtest_main unhandled h config strategy_list events = Inr self'
     \<and> list_all is_construction_call pre
     \<and> trace self' = map (Pair Timestamp_1900_01_01) (pre @ [EventsEngineRun])
          @ stamped Timestamp_1900_01_01 events
          @ map (Pair (last_market_time Timestamp_1900_01_01 events))
              [UpdateFinalPerformance (last_market_time Timestamp_1900_01_01 events),
               SaveResults (cfg_output_dir config), CreateTearsheet]"
proof -
  from init_known [where strategy_list = strategy_list, OF assms] obtain h' self where
    i: "Backtest_init h config strategy_list = Inr (h', self)" and w: "wired self"
    and c: "current_time self = Timestamp_1900_01_01"
    and od: "output_dir self = cfg_output_dir config"
    and cc: "list_all is_construction_call (calls self)"
    and tr: "trace self = map (Pair Timestamp_1900_01_01) (calls self)"
    by blast
  from run_wired [OF w, where events = events and unhandled = unhandled] obtain self' where
    r: "run unhandled events self = Inr self'"
    and t: "trace self' = trace self @ (current_time self, EventsEngineRun) # stamped (current_time self) events
          @ map (Pair (last_market_time (current_time self) events))
              [UpdateFinalPerformance (last_market_time (current_time self) events),
               SaveResults (output_dir self), CreateTearsheet]"
    by blast
  have "backtest_main unhandled h config strategy_list events = Inr self'"
    using i r by (simp add: backtest_main_def)
  moreover have "trace self' = map (Pair Timestamp_1900_01_01) (calls self @ [EventsEngineRun])
          @ stamped Timestamp_1900_01_01 events
          @ map (Pair (last_market_time Timestamp_1900_01_01 events))
              [UpdateFinalPerformance (last_market_time Timestamp_1900_01_01 events),
               SaveResults (cfg_output_dir config), CreateTearsheet]"
    using t tr c od by simp
  ultimately show ?thesis using cc by blast
qed

lemma main_known_calls:
  assumes "heap_get h (cfg_tickers config) = Some tickers"
    and "strategy_list (cfg_strategy config) = Some k"
  shows "\<exists>self' pre. backtest_main unhandled h config strategy_list events = Inr self'
     \<and> list_all is_construction_call pre
     \<and> calls self' = pre @ EventsEngineRun # concat (map handler_calls events)
          @ [UpdateFinalPerformance (last_market_time Timestamp_1900_01_01 events),
             SaveResults (cfg_output_dir config), CreateTearsheet]"
proof -
  from main_known [where unhandled = unhandled and strategy_list = strategy_list and events = events, OF assms] obtain self' pre where
    m: "backtest_main unhandled h config strategy_list events = Inr self'"
    and cc: "list_all is_construction_call pre"
    and t: "trace self' = map (Pair Timestamp_1900_01_01) (pre @ [EventsEngineRun])
          @ stamped Timestamp_1900_01_01 events
          @ map (Pair (last_market_time Timestamp_1900_01_01 events))
              [UpdateFinalPerformance (last_market_time Timestamp_1900_01_01 events),
               SaveResults (cfg_output_dir config), CreateTearsheet]"
    by blast
  have "calls self' = pre @ EventsEngineRun # concat (map handler_calls events)
          @ [UpdateFinalPerformance (last_market_time Timestamp_1900_01_01 events),
             SaveResults (cfg_output_dir config), CreateTearsheet]"
    unfolding calls_def t by (simp add: map_snd_stamped comp_def)
  with m cc show ?thesis by blast
qed

subsection \<open>Projecting the log onto a class of calls\<close>

lemma filter_construction_calls:
  assumes "list_all is_construction_call pre"
    and "\<And>c. is_construction_call c \<Longrightarrow> \<not> P c"
  shows "filter P pre = []"
  using assms by (induction pre) auto

lemma filter_handler_calls:
  assumes "\<And>e. filter P (handler_calls e) = f e"
  shows "filter P (concat (map handler_calls events)) = concat (map f events)"
  using assms by (induction events) simp_all

lemma construction_not_valuation: "is_construction_call c \<Longrightarrow> \<not> is_valuation_call c"
  by (cases c) simp_all

lemma construction_not_mark: "is_construction_call c \<Longrightarrow> \<not> is_mark c"
  by (cases c) simp_all

lemma construction_not_board: "is_construction_call c \<Longrightarrow> \<not> is_board_update c"
  by (cases c) simp_all

lemma construction_not_market: "is_construction_call c \<Longrightarrow> \<not> is_market_call c"
  by (cases c) simp_all

lemma construction_not_on_fill: "is_construction_call c \<Longrightarrow> \<not> is_on_fill c"
  by (cases c) simp_all

lemma construction_not_order_path: "is_construction_call c \<Longrightarrow> \<not> is_order_path_call c"
  by (cases c) simp_all

lemma construction_not_final: "is_construction_call c \<Longrightarrow> \<not> is_final_snapshot c"
  by (cases c) simp_all

lemma valuation_handler_calls:
  "filter is_valuation_call (handler_calls e) = snapshot_of e @ mark_of e"
  by (cases e) simp_all

lemma mark_handler_calls: "filter is_mark (handler_calls e) = mark_of e"
  by (cases e) simp_all

lemma board_handler_calls: "filter is_board_update (handler_calls e) = board_update_of e"
  by (cases e) simp_all

lemma market_handler_calls:
  "filter is_market_call (handler_calls e) =
     snapshot_of e @ mark_of e @ board_update_of e @ strategy_callback_of e"
  by (cases e) simp_all

lemma on_fill_handler_calls: "filter is_on_fill (handler_calls e) = on_fill_calls e"
  by (cases e) simp_all

lemma order_path_handler_calls: "filter is_order_path_call (handler_calls e) = place_order_of e"
  by (cases e) simp_all

lemma final_handler_calls: "filter is_final_snapshot (handler_calls e) = []"
  by (cases e) simp_all

lemma handler_calls_market_prefix:
  "\<exists>rest. handler_calls e = snapshot_of e @ mark_of e @ board_update_of e @ strategy_callback_of e @ rest"
  by (cases e) simp_all

lemma final_snapshot_calls:
  assumes "list_all is_construction_call pre"
  shows "filter is_final_snapshot (pre @ EventsEngineRun # concat (map handler_calls events)
          @ [UpdateFinalPerformance t, SaveResults d, CreateTearsheet])
         = [UpdateFinalPerformance t]"
  using filter_construction_calls [OF assms construction_not_final]
    filter_handler_calls [of is_final_snapshot "\<lambda>e. []" events, OF final_handler_calls]
  by simp

lemma market_stamped:
  "filter (\<lambda>(t, c). is_market_call c) (stamped t events) = concat (map stamped_market_calls events)"
proof (induction events arbitrary: t)
  case Nil
  show ?case by simp
next
  case (Cons e es)
  show ?case by (cases e) (simp_all add: Cons.IH clock_step_def)
qed

subsection \<open>Facts about the example\<close>

lemma example_heap_tickers:
  "heap_get example_heap (cfg_tickers example_config) = Some [PStr ''AAPL'', PStr ''MSFT'']"
  by (simp add: heap_get_def example_heap_def example_config_def)

lemma example_registry_known:
  "example_registry (cfg_strategy example_config) = Some (StrategyClass ''BuyAndHold'')"
  by (simp add: example_registry_def example_config_def)

lemma example_tick_fields:
  "tick_timestamp example_tick = 100" "tick_full_symbol example_tick = ''AAPL''"
  "tick_price example_tick = 10"
  by (simp_all add: example_tick_def)

lemma example_bar_fields:
  "bar_end_time example_bar = 200" "bar_full_symbol example_bar = ''AAPL''"
  "adj_close_price example_bar = 11"
  by (simp_all add: example_bar_def bar_end_time_def)




lemma unknown_heap_tickers:
  "heap_get example_heap (cfg_tickers unknown_strategy_config) = Some [PStr ''AAPL'', PStr ''MSFT'']"
  by (simp add: heap_get_def example_heap_def example_config_def unknown_strategy_config_def)

lemma unknown_registry_miss: "example_registry (cfg_strategy unknown_strategy_config) = None"
  by (simp add: example_registry_def unknown_strategy_config_def)

subsection \<open>The datasource comparison\<close>

lemma lower_upper_char: "lower_char (upper_char c) = lower_char c"
  by (auto simp: lower_char_def upper_char_def Let_def)

lemma upper_ci_equal: "upper s = t \<Longrightarrow> ci_equal s t"
proof -
  assume "upper s = t"
  then have "map lower_char t = map lower_char (map upper_char s)"
    by (simp add: upper_def)
  also have "\<dots> = map lower_char s"
    by (simp add: lower_upper_char)
  finally show "ci_equal s t" by (simp add: ci_equal_def)
qed

lemma select_data_feed_default:
  assumes "\<not> ci_equal datasource ''LOCAL''" and "\<not> ci_equal datasource ''TUSHARE''"
  shows "select_data_feed datasource hist start_date send_date
           = BacktestDataFeedQuandl start_date send_date"
  using assms upper_ci_equal [of datasource "''LOCAL''"] upper_ci_equal [of datasource "''TUSHARE''"]
  by (auto simp: select_data_feed_def)

section \<open>The claims\<close>

subsection \<open>C1: the performance snapshot comes before the mark\<close>

text \<open>
  C1. For every Tick and every Bar that the engine processes, the handler calls the
  performance manager's update_performance, with the event's timestamp, strictly before the
  portfolio manager's mark_to_market for the same event. Over a whole run of a constructed
  engine the snapshots and marks alternate, one pair per market event in event order; and at
  the snapshot for an event the marks already made are exactly those of the earlier events,
  so the snapshot for time T sees the valuation of the previous mark.
\<close>

theorem update_performance_precedes_mark_to_market:
  assumes "heap_get h (cfg_tickers config) = Some tickers"
    and "strategy_list (cfg_strategy config) = Some k"
  shows "\<exists>self'. backtest_main unhandled h config strategy_list (before @ e # after) = Inr self'
     \<and> filter is_valuation_call (calls self')
         = concat (map (\<lambda>e. snapshot_of e @ mark_of e) (before @ e # after))
     \<and> (\<exists>pre post. calls self' = pre @ snapshot_of e @ mark_of e @ post
           \<and> filter is_mark pre = concat (map mark_of before))"
proof -
  from main_known_calls [where unhandled = unhandled and strategy_list = strategy_list and events = "before @ e # after", OF assms]
  obtain self' pre where
    m: "backtest_main unhandled h config strategy_list (before @ e # after) = Inr self'"
    and cc: "list_all is_construction_call pre"
    and c: "calls self' = pre @ EventsEngineRun # concat (map handler_calls (before @ e # after))
          @ [UpdateFinalPerformance (last_market_time Timestamp_1900_01_01 (before @ e # after)),
             SaveResults (cfg_output_dir config), CreateTearsheet]"
    by blast
  have p: "filter is_valuation_call (calls self')
         = concat (map (\<lambda>e. snapshot_of e @ mark_of e) (before @ e # after))"
    unfolding c
    using filter_construction_calls [OF cc construction_not_valuation]
      filter_handler_calls [of is_valuation_call "\<lambda>e. snapshot_of e @ mark_of e" "before @ e # after",
        OF valuation_handler_calls]
    by simp
  obtain rest where r: "handler_calls e =
      snapshot_of e @ mark_of e @ board_update_of e @ strategy_callback_of e @ rest"
    using handler_calls_market_prefix by blast
  let ?pre = "pre @ EventsEngineRun # concat (map handler_calls before)"
  let ?post = "board_update_of e @ strategy_callback_of e @ rest @ concat (map handler_calls after)
          @ [UpdateFinalPerformance (last_market_time Timestamp_1900_01_01 (before @ e # after)),
             SaveResults (cfg_output_dir config), CreateTearsheet]"
  have d: "calls self' = ?pre @ snapshot_of e @ mark_of e @ ?post"
    unfolding c by (simp add: r)
  have f: "filter is_mark ?pre = concat (map mark_of before)"
    using filter_construction_calls [OF cc construction_not_mark]
      filter_handler_calls [of is_mark mark_of before, OF mark_handler_calls]
    by simp
  from m p d f show ?thesis by blast
qed

theorem update_performance_precedes_mark_to_market_witness:
  "heap_get example_heap (cfg_tickers example_config) = Some [PStr ''AAPL'', PStr ''MSFT'']
   \<and> example_registry (cfg_strategy example_config) = Some (StrategyClass ''BuyAndHold'')
   \<and> (\<exists>self'. backtest_main example_unhandled example_heap example_config example_registry
                  ([Tick example_tick, Order example_order, Fill example_fill]
                     @ Bar example_bar # []) = Inr self'
        \<and> filter is_valuation_call (calls self')
            = [UpdatePerformance 100, MarkToMarket 100 ''AAPL'' 10,
               UpdatePerformance 200, MarkToMarket 200 ''AAPL'' 11]
        \<and> (\<exists>pre post. calls self'
               = pre @ [UpdatePerformance 200] @ [MarkToMarket 200 ''AAPL'' 11] @ post
             \<and> filter is_mark pre = [MarkToMarket 100 ''AAPL'' 10]))"
  using example_heap_tickers example_registry_known
    update_performance_precedes_mark_to_market
      [where unhandled = example_unhandled and strategy_list = example_registry and e = "Bar example_bar" and after = "[]"
         and before = "[Tick example_tick, Order example_order, Fill example_fill]",
       OF example_heap_tickers example_registry_known]
  by (simp add: example_tick_fields example_bar_fields)

subsection \<open>C2: the data board is updated between the valuation and the strategy\<close>

text \<open>
  C2. For every market event the data board is updated with the event only after the
  performance snapshot and the mark-to-market for that event, and before the strategy's
  on_tick or on_bar. Over a whole run the four calls come in this order for each market
  event; at the snapshot and the mark for an event the board has received exactly the
  updates of the earlier events, and the strategy is called right after the board's update
  for the current event.
\<close>

theorem data_board_update_after_valuation_before_strategy:
  assumes "heap_get h (cfg_tickers config) = Some tickers"
    and "strategy_list (cfg_strategy config) = Some k"
  shows "\<exists>self'. backtest_main unhandled h config strategy_list (before @ e # after) = Inr self'
     \<and> filter is_market_call (calls self')
         = concat (map (\<lambda>e. snapshot_of e @ mark_of e @ board_update_of e @ strategy_callback_of e)
                     (before @ e # after))
     \<and> (\<exists>pre post. calls self'
             = pre @ snapshot_of e @ mark_of e @ board_update_of e @ strategy_callback_of e @ post
           \<and> filter is_board_update pre = concat (map board_update_of before))"
proof -
  from main_known_calls [where unhandled = unhandled and strategy_list = strategy_list and events = "before @ e # after", OF assms]
  obtain self' pre where
    m: "backtest_main unhandled h config strategy_list (before @ e # after) = Inr self'"
    and cc: "list_all is_construction_call pre"
    and c: "calls self' = pre @ EventsEngineRun # concat (map handler_calls (before @ e # after))
          @ [UpdateFinalPerformance (last_market_time Timestamp_1900_01_01 (before @ e # after)),
             SaveResults (cfg_output_dir config), CreateTearsheet]"
    by blast
  have p: "filter is_market_call (calls self')
         = concat (map (\<lambda>e. snapshot_of e @ mark_of e @ board_update_of e @ strategy_callback_of e)
                     (before @ e # after))"
    unfolding c
    using filter_construction_calls [OF cc construction_not_market]
      filter_handler_calls [of is_market_call
        "\<lambda>e. snapshot_of e @ mark_of e @ board_update_of e @ strategy_callback_of e"
        "before @ e # after", OF market_handler_calls]
    by simp
  obtain rest where r: "handler_calls e =
      snapshot_of e @ mark_of e @ board_update_of e @ strategy_callback_of e @ rest"
    using handler_calls_market_prefix by blast
  let ?pre = "pre @ EventsEngineRun # concat (map handler_calls before)"
  let ?post = "rest @ concat (map handler_calls after)
          @ [UpdateFinalPerformance (last_market_time Timestamp_1900_01_01 (before @ e # after)),
             SaveResults (cfg_output_dir config), CreateTearsheet]"
  have d: "calls self'
      = ?pre @ snapshot_of e @ mark_of e @ board_update_of e @ strategy_callback_of e @ ?post"
    unfolding c by (simp add: r)
  have f: "filter is_board_update ?pre = concat (map board_update_of before)"
    using filter_construction_calls [OF cc construction_not_board]
      filter_handler_calls [of is_board_update board_update_of before, OF board_handler_calls]
    by simp
  from m p d f show ?thesis by blast
qed

theorem data_board_update_after_valuation_before_strategy_witness:
  "heap_get example_heap (cfg_tickers example_config) = Some [PStr ''AAPL'', PStr ''MSFT'']
   \<and> example_registry (cfg_strategy example_config) = Some (StrategyClass ''BuyAndHold'')
   \<and> (\<exists>self'. backtest_main example_unhandled example_heap example_config example_registry
                  ([Tick example_tick, Order example_order, Fill example_fill]
                     @ Bar example_bar # []) = Inr self'
        \<and> filter is_market_call (calls self')
            = [UpdatePerformance 100, MarkToMarket 100 ''AAPL'' 10,
               DataBoardOnTick example_tick, StrategyOnTick example_tick,
               UpdatePerformance 200, MarkToMarket 200 ''AAPL'' 11,
               DataBoardOnBar example_bar, StrategyOnBar example_bar]
        \<and> (\<exists>pre post. calls self'
               = pre @ [UpdatePerformance 200] @ [MarkToMarket 200 ''AAPL'' 11]
                   @ [DataBoardOnBar example_bar] @ [StrategyOnBar example_bar] @ post
             \<and> filter is_board_update pre = [DataBoardOnTick example_tick]))"
  using example_heap_tickers example_registry_known
    data_board_update_after_valuation_before_strategy
      [where unhandled = example_unhandled and strategy_list = example_registry and e = "Bar example_bar" and after = "[]"
         and before = "[Tick example_tick, Order example_order, Fill example_fill]",
       OF example_heap_tickers example_registry_known]
  by (simp add: example_tick_fields example_bar_fields)

subsection \<open>C3: orders and the risk manager\<close>

text \<open>
  The engine constructs a pass-through risk manager and keeps it in a field, but
  \<open>_order_event_handler\<close> hands the order to the brokerage without consulting it, and
  neither the brokerage nor the strategy is given the risk manager. In a run with one
  order the brokerage receives the order and no check of it is ever made.
\<close>

theorem risk_check_not_invoked_counterexample:
  "PlaceOrder example_order \<in> set (calls_of (backtest_main example_unhandled example_heap example_config
        example_registry [Tick example_tick, Order example_order]))
   \<and> RiskCheck example_order \<notin> set (calls_of (backtest_main example_unhandled example_heap example_config
        example_registry [Tick example_tick, Order example_order]))"
proof -
  let ?events = "[Tick example_tick, Order example_order]"
  from main_known_calls [where unhandled = example_unhandled and strategy_list = example_registry and events = ?events,
      OF example_heap_tickers example_registry_known]
  obtain self' pre where
    m: "backtest_main example_unhandled example_heap example_config example_registry ?events = Inr self'"
    and cc: "list_all is_construction_call pre"
    and c: "calls self' = pre @ EventsEngineRun # concat (map handler_calls ?events)
          @ [UpdateFinalPerformance (last_market_time Timestamp_1900_01_01 ?events),
             SaveResults (cfg_output_dir example_config), CreateTearsheet]"
    by blast
  have "RiskCheck example_order \<notin> set pre"
    using cc by (auto simp: list_all_iff)
  then show ?thesis
    by (simp add: m calls_of_def c)
qed

text \<open>
  C3, amended. Every Order event dispatched to a constructed engine is handed to the
  brokerage's place_order exactly once, in event order, and directly: the engine makes no
  risk check on the way, so on this path no order is rejected.
\<close>

theorem order_goes_straight_to_brokerage:
  assumes "heap_get h (cfg_tickers config) = Some tickers"
    and "strategy_list (cfg_strategy config) = Some k"
  shows "\<exists>self'. backtest_main unhandled h config strategy_list events = Inr self'
     \<and> filter is_order_path_call (calls self') = concat (map place_order_of events)"
proof -
  from main_known_calls [where unhandled = unhandled and strategy_list = strategy_list and events = events, OF assms]
  obtain self' pre where
    m: "backtest_main unhandled h config strategy_list events = Inr self'"
    and cc: "list_all is_construction_call pre"
    and c: "calls self' = pre @ EventsEngineRun # concat (map handler_calls events)
          @ [UpdateFinalPerformance (last_market_time Timestamp_1900_01_01 events),
             SaveResults (cfg_output_dir config), CreateTearsheet]"
    by blast
  have "filter is_order_path_call (calls self') = concat (map place_order_of events)"
    unfolding c
    using filter_construction_calls [OF cc construction_not_order_path]
      filter_handler_calls [of is_order_path_call place_order_of events, OF order_path_handler_calls]
    by simp
  with m show ?thesis by blast
qed

theorem order_goes_straight_to_brokerage_witness:
  "heap_get example_heap (cfg_tickers example_config) = Some [PStr ''AAPL'', PStr ''MSFT'']
   \<and> example_registry (cfg_strategy example_config) = Some (StrategyClass ''BuyAndHold'')
   \<and> (\<exists>self'. backtest_main example_unhandled example_heap example_config example_registry example_events
                  = Inr self'
        \<and> filter is_order_path_call (calls self') = [PlaceOrder example_order])"
  using example_heap_tickers example_registry_known
    order_goes_straight_to_brokerage
      [where unhandled = example_unhandled and strategy_list = example_registry and events = example_events,
       OF example_heap_tickers example_registry_known]
  by (simp add: example_events_def)

subsection \<open>C4: a strategy that is not in the registry\<close>

text \<open>
  When the registry has no entry for the configured name the constructor prints a message
  and returns. The caller gets an engine object, not an error.
\<close>

theorem unknown_strategy_no_error_counterexample:
  "example_registry (cfg_strategy unknown_strategy_config) = None
   \<and> \<not> isl (Backtest_init example_heap unknown_strategy_config example_registry)"
proof -
  from init_unknown [where strategy_list = example_registry,
      OF unknown_heap_tickers unknown_registry_miss]
  obtain h' self where
    "Backtest_init example_heap unknown_strategy_config example_registry = Inr (h', self)"
    by blast
  then show ?thesis
    using unknown_registry_miss by simp
qed

text \<open>
  C4, amended. If the configuration names a strategy that is not in the registry, the
  constructor prints that it cannot find the strategy and returns normally, before any event
  is processed: no error reaches the caller. Every call it has made by then is a
  construction call, the message is the last of them, and the engine it returns has no
  strategy and no registered handler.
\<close>

theorem unknown_strategy_returns_unwired_engine:
  assumes "heap_get h (cfg_tickers config) = Some tickers"
    and "strategy_list (cfg_strategy config) = None"
  shows "\<exists>h' self. Backtest_init h config strategy_list = Inr (h', self)
     \<and> strategy self = None \<and> handlers self = Map.empty
     \<and> list_all is_construction_call (calls self)
     \<and> last (calls self) = PrintCanNotFindStrategy (cfg_strategy config)"
proof -
  from init_unknown [where strategy_list = strategy_list, OF assms] obtain h' self where
    i: "Backtest_init h config strategy_list = Inr (h', self)"
    and s: "strategy self = None" and hd: "handlers self = Map.empty"
    and cc: "list_all is_construction_call (calls self)"
    and l: "last (calls self) = PrintCanNotFindStrategy (cfg_strategy config)"
    by blast
  then show ?thesis by blast
qed

theorem unknown_strategy_returns_unwired_engine_witness:
  "heap_get example_heap (cfg_tickers unknown_strategy_config) = Some [PStr ''AAPL'', PStr ''MSFT'']
   \<and> example_registry (cfg_strategy unknown_strategy_config) = None
   \<and> (\<exists>h' self.
         Backtest_init example_heap unknown_strategy_config example_registry = Inr (h', self)
       \<and> strategy self = None \<and> handlers self = Map.empty
       \<and> list_all is_construction_call (calls self)
       \<and> last (calls self) = PrintCanNotFindStrategy (PStr ''NoSuchStrategy''))"
proof -
  have c: "cfg_strategy unknown_strategy_config = PStr ''NoSuchStrategy''"
    by (simp add: unknown_strategy_config_def)
  show ?thesis
    using unknown_heap_tickers unknown_registry_miss
      unknown_strategy_returns_unwired_engine
        [where strategy_list = example_registry,
         OF unknown_heap_tickers unknown_registry_miss]
    by (simp add: c)
qed

subsection \<open>C5: the mark uses the price of the event\<close>

text \<open>
  C5. For every market event the mark-to-market made for it uses the price that triggered
  the event: for a Tick the tick's symbol and price at the tick's timestamp, for a Bar the
  bar's symbol and adjusted close at the bar's end time. Over a whole run the marks are
  exactly these, one per market event, in event order.
\<close>

theorem mark_to_market_uses_event_price:
  assumes "heap_get h (cfg_tickers config) = Some tickers"
    and "strategy_list (cfg_strategy config) = Some k"
  shows "\<exists>self'. backtest_main unhandled h config strategy_list events = Inr self'
     \<and> filter is_mark (calls self') = concat (map mark_of events)"
proof -
  from main_known_calls [where unhandled = unhandled and strategy_list = strategy_list and events = events, OF assms]
  obtain self' pre where
    m: "backtest_main unhandled h config strategy_list events = Inr self'"
    and cc: "list_all is_construction_call pre"
    and c: "calls self' = pre @ EventsEngineRun # concat (map handler_calls events)
          @ [UpdateFinalPerformance (last_market_time Timestamp_1900_01_01 events),
             SaveResults (cfg_output_dir config), CreateTearsheet]"
    by blast
  have "filter is_mark (calls self') = concat (map mark_of events)"
    unfolding c
    using filter_construction_calls [OF cc construction_not_mark]
      filter_handler_calls [of is_mark mark_of events, OF mark_handler_calls]
    by simp
  with m show ?thesis by blast
qed

theorem mark_to_market_uses_event_price_witness:
  "heap_get example_heap (cfg_tickers example_config) = Some [PStr ''AAPL'', PStr ''MSFT'']
   \<and> example_registry (cfg_strategy example_config) = Some (StrategyClass ''BuyAndHold'')
   \<and> (\<exists>self'. backtest_main example_unhandled example_heap example_config example_registry example_events
                  = Inr self'
        \<and> filter is_mark (calls self')
            = [MarkToMarket 100 ''AAPL'' 10, MarkToMarket 200 ''AAPL'' 11])"
  using example_heap_tickers example_registry_known
    mark_to_market_uses_event_price
      [where unhandled = example_unhandled and strategy_list = example_registry and events = example_events,
       OF example_heap_tickers example_registry_known]
  by (simp add: example_events_def example_tick_fields example_bar_fields)

subsection \<open>C6: the final snapshot\<close>



subsection \<open>C7: a fill updates the portfolio, then the trade statistics\<close>

text \<open>
  C7. For every Fill event the fill handler calls the portfolio manager's on_fill and the
  performance manager's on_fill exactly once each, the portfolio first. Over a whole run the
  on_fill calls are exactly this pair for each Fill, in event order.
\<close>

theorem fill_updates_portfolio_then_performance:
  assumes "heap_get h (cfg_tickers config) = Some tickers"
    and "strategy_list (cfg_strategy config) = Some k"
  shows "\<exists>self'. backtest_main unhandled h config strategy_list events = Inr self'
     \<and> filter is_on_fill (calls self') = concat (map on_fill_calls events)"
proof -
  from main_known_calls [where unhandled = unhandled and strategy_list = strategy_list and events = events, OF assms]
  obtain self' pre where
    m: "backtest_main unhandled h config strategy_list events = Inr self'"
    and cc: "list_all is_construction_call pre"
    and c: "calls self' = pre @ EventsEngineRun # concat (map handler_calls events)
          @ [UpdateFinalPerformance (last_market_time Timestamp_1900_01_01 events),
             SaveResults (cfg_output_dir config), CreateTearsheet]"
    by blast
  have "filter is_on_fill (calls self') = concat (map on_fill_calls events)"
    unfolding c
    using filter_construction_calls [OF cc construction_not_on_fill]
      filter_handler_calls [of is_on_fill on_fill_calls events, OF on_fill_handler_calls]
    by simp
  with m show ?thesis by blast
qed

theorem fill_updates_portfolio_then_performance_witness:
  "heap_get example_heap (cfg_tickers example_config) = Some [PStr ''AAPL'', PStr ''MSFT'']
   \<and> example_registry (cfg_strategy example_config) = Some (StrategyClass ''BuyAndHold'')
   \<and> (\<exists>self'. backtest_main example_unhandled example_heap example_config example_registry example_events
                  = Inr self'
        \<and> filter is_on_fill (calls self')
            = [PortfolioOnFill example_fill, PerformanceOnFill example_fill])"
  using example_heap_tickers example_registry_known
    fill_updates_portfolio_then_performance
      [where unhandled = example_unhandled and strategy_list = example_registry and events = example_events,
       OF example_heap_tickers example_registry_known]
  by (simp add: example_events_def)

subsection \<open>C8: the default data feed\<close>

text \<open>
  C8. For every configuration whose datasource, as a string, equals neither LOCAL nor
  TUSHARE when case is ignored, the constructor selects the Quandl data feed; it raises no
  error for the unrecognised value. The statement is made for datasource strings of ASCII
  characters, on which the comparison of the model is the comparison of the code.
\<close>

theorem unrecognised_datasource_selects_quandl:
  assumes "heap_get h (cfg_tickers config) = Some tickers"
    and "list_all is_ascii (py_str (cfg_datasource config))"
    and "\<not> ci_equal (py_str (cfg_datasource config)) ''LOCAL''"
    and "\<not> ci_equal (py_str (cfg_datasource config)) ''TUSHARE''"
  shows "\<exists>h' self. Backtest_init h config strategy_list = Inr (h', self)
     \<and> data_feed self
         = Some (BacktestDataFeedQuandl (cfg_start_date config) (cfg_end_date config))
     \<and> NewDataFeed (BacktestDataFeedQuandl (cfg_start_date config) (cfg_end_date config))
         \<in> set (calls self)"
  using init_feed [where strategy_list = strategy_list, OF assms(1)]
    select_data_feed_default [OF assms(3) assms(4)]
  by simp

theorem unrecognised_datasource_selects_quandl_witness:
  "heap_get example_heap (cfg_tickers yahoo_config) = Some [PStr ''AAPL'', PStr ''MSFT'']
   \<and> list_all is_ascii (py_str (cfg_datasource yahoo_config))
   \<and> \<not> ci_equal (py_str (cfg_datasource yahoo_config)) ''LOCAL''
   \<and> \<not> ci_equal (py_str (cfg_datasource yahoo_config)) ''TUSHARE''
   \<and> (\<exists>h' self. Backtest_init example_heap yahoo_config example_registry = Inr (h', self)
        \<and> data_feed self
            = Some (BacktestDataFeedQuandl (PStr ''2017-01-01'') (PStr ''2017-12-31''))
        \<and> NewDataFeed (BacktestDataFeedQuandl (PStr ''2017-01-01'') (PStr ''2017-12-31''))
            \<in> set (calls self))"
proof -
  have h1: "heap_get example_heap (cfg_tickers yahoo_config) = Some [PStr ''AAPL'', PStr ''MSFT'']"
    by (simp add: heap_get_def example_heap_def example_config_def yahoo_config_def)
  have h0: "list_all is_ascii (py_str (cfg_datasource yahoo_config))"
    by (simp add: yahoo_config_def is_ascii_def)
  have h2: "\<not> ci_equal (py_str (cfg_datasource yahoo_config)) ''LOCAL''"
    by (simp add: yahoo_config_def ci_equal_def lower_char_def)
  have h3: "\<not> ci_equal (py_str (cfg_datasource yahoo_config)) ''TUSHARE''"
    by (simp add: yahoo_config_def ci_equal_def lower_char_def)
  have d: "cfg_start_date yahoo_config = PStr ''2017-01-01''"
    "cfg_end_date yahoo_config = PStr ''2017-12-31''"
    by (simp_all add: yahoo_config_def example_config_def)
  show ?thesis
    using h1 h0 h2 h3
      unrecognised_datasource_selects_quandl [where strategy_list = example_registry,
        OF h1 h0 h2 h3]
    by (simp add: d)
qed

subsection \<open>C9: the benchmark and the two symbol lists\<close>

text \<open>
  C9. When a benchmark is configured (not None), the benchmark is appended to the universe
  that is subscribed to the data feed and passed to the performance manager, while the
  engine's own symbol list holds the configured tickers only, and the caller's tickers list,
  of which the constructor works on a copy, is left as it was.
\<close>

theorem benchmark_only_in_subscribed_universe:
  assumes "heap_get h (cfg_tickers config) = Some tickers"
    and "cfg_benchmark config \<noteq> PNone"
  shows "\<exists>h' self. Backtest_init h config strategy_list = Inr (h', self)
     \<and> SubscribeMarketData (map (\<lambda>s. PStr (py_str s)) (tickers @ [cfg_benchmark config]))
          \<in> set (calls self)
     \<and> NewPerformanceManager (map (\<lambda>s. PStr (py_str s)) (tickers @ [cfg_benchmark config]))
          \<in> set (calls self)
     \<and> heap_get h' (symbols self) = Some (map (\<lambda>s. PStr (py_str s)) tickers)
     \<and> heap_get h' (cfg_tickers config) = Some tickers"
  using init_lists [where strategy_list = strategy_list, OF assms(1)] assms(2)
  by auto

theorem benchmark_only_in_subscribed_universe_witness:
  "heap_get example_heap (cfg_tickers example_config) = Some [PStr ''AAPL'', PStr ''MSFT'']
   \<and> cfg_benchmark example_config \<noteq> PNone
   \<and> (\<exists>h' self. Backtest_init example_heap example_config example_registry = Inr (h', self)
     \<and> SubscribeMarketData [PStr ''AAPL'', PStr ''MSFT'', PStr ''SPY''] \<in> set (calls self)
     \<and> NewPerformanceManager [PStr ''AAPL'', PStr ''MSFT'', PStr ''SPY''] \<in> set (calls self)
     \<and> heap_get h' (symbols self) = Some [PStr ''AAPL'', PStr ''MSFT'']
     \<and> heap_get h' (cfg_tickers example_config) = Some [PStr ''AAPL'', PStr ''MSFT''])"
proof -
  have h2: "cfg_benchmark example_config \<noteq> PNone"
    by (simp add: example_config_def)
  have b: "cfg_benchmark example_config = PStr ''SPY''"
    by (simp add: example_config_def)
  show ?thesis
    using example_heap_tickers h2
      benchmark_only_in_subscribed_universe [where strategy_list = example_registry,
        OF example_heap_tickers h2]
    by (simp add: b)
qed

subsection \<open>C10: the engine's current time\<close>

text \<open>
  C10. The engine's current time starts at 1900-01-01. Every Tick or Bar handler sets it to
  the event's timestamp (the end time of a Bar) before it makes any call for the event: each
  of the performance, portfolio, data board and strategy calls of the event is made with the
  clock already at the event's time. The final snapshot after the run therefore carries the
  timestamp of the last market event processed.
\<close>

theorem current_time_set_before_calls:
  assumes "heap_get h (cfg_tickers config) = Some tickers"
    and "strategy_list (cfg_strategy config) = Some k"
  shows "\<exists>h' self self'. Backtest_init h config strategy_list = Inr (h', self)
     \<and> current_time self = Timestamp_1900_01_01
     \<and> run unhandled events self = Inr self'
     \<and> filter (\<lambda>(t, c). is_market_call c) (trace self') = concat (map stamped_market_calls events)
     \<and> filter is_final_snapshot (calls self')
          = [UpdateFinalPerformance (last_market_time Timestamp_1900_01_01 events)]"
proof -
  from init_known [where strategy_list = strategy_list, OF assms] obtain h' self where
    i: "Backtest_init h config strategy_list = Inr (h', self)" and w: "wired self"
    and c: "current_time self = Timestamp_1900_01_01"
    and cc: "list_all is_construction_call (calls self)"
    and tr: "trace self = map (Pair Timestamp_1900_01_01) (calls self)"
    by blast
  from run_wired [OF w, where events = events and unhandled = unhandled] obtain self' where
    r: "run unhandled events self = Inr self'"
    and t: "trace self' = trace self @ (current_time self, EventsEngineRun) # stamped (current_time self) events
          @ map (Pair (last_market_time (current_time self) events))
              [UpdateFinalPerformance (last_market_time (current_time self) events),
               SaveResults (output_dir self), CreateTearsheet]"
    by blast
  have n: "filter (\<lambda>(t, c). is_market_call c) (trace self) = []"
    unfolding tr using filter_construction_calls [OF cc construction_not_market]
    by (simp add: filter_map comp_def)
  have s: "filter (\<lambda>(t, c). is_market_call c) (trace self') = concat (map stamped_market_calls events)"
    unfolding t by (simp add: n market_stamped)
  have "calls self' = calls self @ EventsEngineRun # concat (map handler_calls events)
          @ [UpdateFinalPerformance (last_market_time Timestamp_1900_01_01 events),
             SaveResults (output_dir self), CreateTearsheet]"
    unfolding calls_def t by (simp add: map_snd_stamped c)
  then have f: "filter is_final_snapshot (calls self')
          = [UpdateFinalPerformance (last_market_time Timestamp_1900_01_01 events)]"
    using final_snapshot_calls [OF cc, of events
        "last_market_time Timestamp_1900_01_01 events" "output_dir self"]
    by simp
  from i c r s f show ?thesis by blast
qed

theorem current_time_set_before_calls_witness:
  "heap_get example_heap (cfg_tickers example_config) = Some [PStr ''AAPL'', PStr ''MSFT'']
   \<and> example_registry (cfg_strategy example_config) = Some (StrategyClass ''BuyAndHold'')
   \<and> (\<exists>h' self self'.
         Backtest_init example_heap example_config example_registry = Inr (h', self)
       \<and> current_time self = Timestamp_1900_01_01
       \<and> run example_unhandled example_events self = Inr self'
       \<and> filter (\<lambda>(t, c). is_market_call c) (trace self')
           = [(100, UpdatePerformance 100), (100, MarkToMarket 100 ''AAPL'' 10),
              (100, DataBoardOnTick example_tick), (100, StrategyOnTick example_tick),
              (200, UpdatePerformance 200), (200, MarkToMarket 200 ''AAPL'' 11),
              (200, DataBoardOnBar example_bar), (200, StrategyOnBar example_bar)]
       \<and> filter is_final_snapshot (calls self') = [UpdateFinalPerformance 200])"
proof -
  have l: "last_market_time Timestamp_1900_01_01 example_events = 200"
    by (simp add: last_market_time_def List.map_filter_def example_events_def example_bar_fields)
  have c: "concat (map stamped_market_calls example_events)
           = [(100, UpdatePerformance 100), (100, MarkToMarket 100 ''AAPL'' 10),
              (100, DataBoardOnTick example_tick), (100, StrategyOnTick example_tick),
              (200, UpdatePerformance 200), (200, MarkToMarket 200 ''AAPL'' 11),
              (200, DataBoardOnBar example_bar), (200, StrategyOnBar example_bar)]"
    by (simp add: example_events_def example_tick_fields example_bar_fields)
  show ?thesis
    using example_heap_tickers example_registry_known
      current_time_set_before_calls
        [where unhandled = example_unhandled and strategy_list = example_registry and events = example_events,
         OF example_heap_tickers example_registry_known]
    by (simp add: l c)
qed

end
